theory Spec2Isabelle
  imports Main "HOL-Library.AList"
begin

section \<open>JavaScript values\<close>

text \<open>
  The values \<open>JSON.parse\<close> can return. Window bounds are whole pixels, so numbers are
  integers; a number with a fraction is outside the model. An object is the list of its
  own properties.
\<close>

datatype json =
    JNull
  | JBool bool
  | JNum int
  | JStr string
  | JArr "json list"
  | JObj "(string \<times> json) list"

type_synonym obj = "(string \<times> json) list"

text \<open>What a call can throw.\<close>

datatype exn = SyntaxError | FsError | ProbeError | StoreError

text \<open>Property read \<open>o.k\<close>: \<open>None\<close> is \<open>undefined\<close>.\<close>

definition get_prop :: "obj \<Rightarrow> string \<Rightarrow> json option" where
  "get_prop ob k = map_of ob k"

text \<open>The decimal name of an array index.\<close>

fun dec :: "nat \<Rightarrow> string" where
  "dec n = (if n < 10 then [char_of (48 + n)]
            else dec (n div 10) @ [char_of (48 + n mod 10)])"

declare dec.simps [simp del]

text \<open>
  The own enumerable properties that object spread \<open>...v\<close> copies: none for \<open>null\<close>, a
  boolean or a number, the indexed characters of a string, the indexed elements of an
  array, every property of an object.
\<close>

fun own_props :: "json \<Rightarrow> obj" where
  "own_props JNull = []"
| "own_props (JBool b) = []"
| "own_props (JNum n) = []"
| "own_props (JStr s) = zip (map dec [0..<length s]) (map (\<lambda>c. JStr [c]) s)"
| "own_props (JArr xs) = zip (map dec [0..<length xs]) xs"
| "own_props (JObj kvs) = kvs"

text \<open>
  An object lists its properties in the order JavaScript enumerates them: the names that
  are array indices first, in ascending order, then the other names in the order they were
  created. A name is an array index when it is the decimal name of a number below
  \<open>2^32 - 1\<close>.
\<close>

definition digits_value :: "string \<Rightarrow> nat" where
  "digits_value k = foldl (\<lambda>a c. 10 * a + (of_char c - 48)) 0 k"

definition array_index :: "string \<Rightarrow> nat option" where
  "array_index k =
     (if k = dec (digits_value k) \<and> digits_value k < 4294967295 then Some (digits_value k)
      else None)"

text \<open>A new property named by the index \<open>n\<close> goes after the smaller indices.\<close>

fun insert_index :: "nat \<Rightarrow> string \<Rightarrow> json \<Rightarrow> obj \<Rightarrow> obj" where
  "insert_index n k x [] = [(k, x)]"
| "insert_index n k x (p # ob) =
     (case array_index (fst p) of
        Some m \<Rightarrow> if m < n then p # insert_index n k x ob else (k, x) # p # ob
      | None \<Rightarrow> (k, x) # p # ob)"

text \<open>
  Defining the property \<open>k\<close>: a property the object has keeps its place and takes the new
  value, a new one takes its place in the enumeration order.
\<close>

definition set_prop :: "string \<Rightarrow> json \<Rightarrow> obj \<Rightarrow> obj" where
  "set_prop k x ob =
     (case map_of ob k of
        Some y \<Rightarrow> AList.update k x ob
      | None \<Rightarrow>
          (case array_index k of
             Some n \<Rightarrow> insert_index n k x ob
           | None \<Rightarrow> ob @ [(k, x)]))"

text \<open>\<open>{...target, ...v}\<close>: each copied property is defined on a copy of the target.\<close>

definition spread :: "obj \<Rightarrow> json \<Rightarrow> obj" where
  "spread target v = fold (\<lambda>(k, x). set_prop k x) (own_props v) target"

text \<open>The truth value an \<open>if\<close> gives to a property read.\<close>

fun truthy :: "json option \<Rightarrow> bool" where
  "truthy None = False"
| "truthy (Some JNull) = False"
| "truthy (Some (JBool b)) = b"
| "truthy (Some (JNum n)) = (n \<noteq> 0)"
| "truthy (Some (JStr s)) = (s \<noteq> [])"
| "truthy (Some (JArr xs)) = True"
| "truthy (Some (JObj kvs)) = True"


section \<open>The window and the host\<close>

record rect =
  rect_x :: int
  rect_y :: int
  rect_width :: int
  rect_height :: int

text \<open>
  The options \<open>createWindow\<close> passes to \<open>new BrowserWindow\<close>: the four it reads from the
  loaded record, and \<open>show\<close>. The others (\<open>webPreferences\<close>, \<open>icon\<close>, \<open>frame\<close>,
  \<open>autoHideMenuBar\<close>) are constants and left out.
\<close>

record window_options =
  opt_width :: "json option"
  opt_height :: "json option"
  opt_x :: "json option"
  opt_y :: "json option"
  opt_show :: bool

datatype source = Remote string | LocalFile string

text \<open>
  The live window as the shell sees it: the options it was created with, the bounds and
  the maximized flag the host reports, and what it was told to load.
\<close>

record window =
  options :: window_options
  bounds :: rect
  maximized :: bool
  content :: "source option"

datatype event = Resize | Move | Close | ReadyToShow

datatype handler = SaveWindowState | ShowWindow

text \<open>Every call the shell makes on the file system, the console, the window, the probe
  and the store, in the order made.\<close>

datatype host_call =
    Exists_sync
  | Read_file_sync
  | Write_file_sync string
  | Console_error string exn
  | New_BrowserWindow window_options
  | Maximize
  | On event handler
  | Once event handler
  | Is_maximized
  | Get_bounds
  | Is_online
  | Load_URL string
  | Load_file string
  | Store_get string
  | Store_set string json

text \<open>\<open>let mainWindow: BrowserWindow\<close> is unset (\<open>None\<close>) until \<open>createWindow\<close> assigns it.\<close>

record session =
  mainWindow :: "window option"
  calls :: "host_call list"

definition host_call :: "host_call \<Rightarrow> 'a session_scheme \<Rightarrow> 'a session_scheme" where
  "host_call c s = s\<lparr>calls := calls s @ [c]\<rparr>"

definition with_window :: "(window \<Rightarrow> window) \<Rightarrow> 'a session_scheme \<Rightarrow> 'a session_scheme" where
  "with_window f s = s\<lparr>mainWindow := map_option f (mainWindow s)\<rparr>"

text \<open>\<open>mainWindow = new BrowserWindow(opts)\<close>; the host places the window at \<open>placed\<close>.\<close>

definition new_BrowserWindow ::
  "window_options \<Rightarrow> rect \<Rightarrow> 'a session_scheme \<Rightarrow> 'a session_scheme" where
  "new_BrowserWindow opts placed s =
     host_call (New_BrowserWindow opts)
       (s\<lparr>mainWindow :=
            Some \<lparr>options = opts, bounds = placed, maximized = False, content = None\<rparr>\<rparr>)"

definition maximize :: "'a session_scheme \<Rightarrow> 'a session_scheme" where
  "maximize s = host_call Maximize (with_window (\<lambda>w. w\<lparr>maximized := True\<rparr>) s)"

definition on :: "event \<Rightarrow> handler \<Rightarrow> 'a session_scheme \<Rightarrow> 'a session_scheme" where
  "on ev h s = host_call (On ev h) s"

definition once :: "event \<Rightarrow> handler \<Rightarrow> 'a session_scheme \<Rightarrow> 'a session_scheme" where
  "once ev h s = host_call (Once ev h) s"

definition loadURL :: "string \<Rightarrow> 'a session_scheme \<Rightarrow> 'a session_scheme" where
  "loadURL u s = host_call (Load_URL u) (with_window (\<lambda>w. w\<lparr>content := Some (Remote u)\<rparr>) s)"

definition loadFile :: "string \<Rightarrow> 'a session_scheme \<Rightarrow> 'a session_scheme" where
  "loadFile f s =
     host_call (Load_file f) (with_window (\<lambda>w. w\<lparr>content := Some (LocalFile f)\<rparr>) s)"

definition console_error :: "string \<Rightarrow> exn \<Rightarrow> 'a session_scheme \<Rightarrow> 'a session_scheme" where
  "console_error msg e s = host_call (Console_error msg e) s"

text \<open>What \<open>await isOnline()\<close> does: resolve to a boolean, or reject.\<close>

datatype probe_outcome = Resolves bool | Rejects exn

definition URL :: string where
  "URL = ''https://monkeytype.com/''"

definition OFFLINE_URL :: string where
  "OFFLINE_URL = ''offline.html''"

definition defaultWindowState :: obj where
  "defaultWindowState =
     [(''width'', JNum 992), (''height'', JNum 600), (''isMaximized'', JBool False)]"

text \<open>The record \<open>saveWindowState\<close> builds from the live window.\<close>

definition state_of :: "window \<Rightarrow> json" where
  "state_of w =
     JObj [(''width'', JNum (rect_width (bounds w))),
           (''height'', JNum (rect_height (bounds w))),
           (''x'', JNum (rect_x (bounds w))),
           (''y'', JNum (rect_y (bounds w))),
           (''isMaximized'', JBool (maximized w))]"


section \<open>The shell that keeps the record in a file\<close>

text \<open>
  \<open>config_file\<close> is the content of \<open>CONFIG_FILE\<close>, \<open>None\<close> when it does not exist.
  \<open>read_fails\<close> and \<open>write_fails\<close> say whether the file system refuses the next read or
  write; a refused write leaves the content as it was.
\<close>

record fs_session = session +
  config_file :: "string option"
  read_fails :: bool
  write_fails :: bool

definition existsSync :: "fs_session \<Rightarrow> bool \<times> fs_session" where
  "existsSync s = (config_file s \<noteq> None, host_call Exists_sync s)"

definition readFileSync :: "fs_session \<Rightarrow> (exn + string) \<times> fs_session" where
  "readFileSync s =
     (case config_file s of
        None \<Rightarrow> (Inl FsError, host_call Read_file_sync s)
      | Some data \<Rightarrow>
          (if read_fails s then Inl FsError else Inr data, host_call Read_file_sync s))"

definition writeFileSync :: "string \<Rightarrow> fs_session \<Rightarrow> (exn + unit) \<times> fs_session" where
  "writeFileSync data s =
     (if write_fails s then (Inl FsError, host_call (Write_file_sync data) s)
      else (Inr (), host_call (Write_file_sync data) (s\<lparr>config_file := Some data\<rparr>)))"

text \<open>
  The \<open>try\<close> block of \<open>getWindowState\<close>: \<open>Inr (Some r)\<close> when it returns \<open>r\<close>, \<open>Inr None\<close>
  when it falls through, \<open>Inl e\<close> when it throws \<open>e\<close>. \<open>parse\<close> is \<open>JSON.parse\<close>.
\<close>

definition try_load ::
  "(string \<Rightarrow> exn + json) \<Rightarrow> fs_session \<Rightarrow> (exn + obj option) \<times> fs_session" where
  "try_load parse s =
     (case existsSync s of
        (found, s1) \<Rightarrow>
          if found then
            (case readFileSync s1 of
               (Inl e, s2) \<Rightarrow> (Inl e, s2)
             | (Inr data, s2) \<Rightarrow>
                 (case parse data of
                    Inl e \<Rightarrow> (Inl e, s2)
                  | Inr v \<Rightarrow> (Inr (Some (spread defaultWindowState v)), s2)))
          else (Inr None, s1))"

definition getWindowState ::
  "(string \<Rightarrow> exn + json) \<Rightarrow> fs_session \<Rightarrow> (exn + obj) \<times> fs_session" where
  "getWindowState parse s =
     (case try_load parse s of
        (Inr (Some r), s1) \<Rightarrow> (Inr r, s1)
      | (Inr None, s1) \<Rightarrow> (Inr defaultWindowState, s1)
      | (Inl e, s1) \<Rightarrow>
          (Inr defaultWindowState, console_error ''Failed to load window state:'' e s1))"

text \<open>\<open>stringify\<close> is \<open>JSON.stringify(_, null, 2)\<close>.\<close>

definition saveWindowState ::
  "(json \<Rightarrow> string) \<Rightarrow> fs_session \<Rightarrow> (exn + unit) \<times> fs_session" where
  "saveWindowState stringify s =
     (case mainWindow s of
        None \<Rightarrow> (Inr (), s)
      | Some w \<Rightarrow>
          (case writeFileSync (stringify (state_of w))
                  (host_call Get_bounds (host_call Is_maximized s)) of
             (Inl e, s1) \<Rightarrow> (Inr (), console_error ''Failed to save window state:'' e s1)
           | (Inr u, s1) \<Rightarrow> (Inr (), s1)))"

text \<open>
  The body both \<open>createWindow\<close> functions share once the record is loaded: create the
  window, restore the maximized flag, register the listeners, probe, load.
\<close>

definition open_window ::
  "obj \<Rightarrow> rect \<Rightarrow> probe_outcome \<Rightarrow> 'a session_scheme \<Rightarrow> (exn + unit) \<times> 'a session_scheme" where
  "open_window windowState placed probe s =
     (let s1 = new_BrowserWindow
                 \<lparr>opt_width = get_prop windowState ''width'',
                  opt_height = get_prop windowState ''height'',
                  opt_x = get_prop windowState ''x'',
                  opt_y = get_prop windowState ''y'',
                  opt_show = False\<rparr> placed s;
          s2 = (if truthy (get_prop windowState ''isMaximized'') then maximize s1 else s1);
          s3 = on Resize SaveWindowState s2;
          s4 = on Move SaveWindowState s3;
          s5 = on Close SaveWindowState s4;
          s6 = once ReadyToShow ShowWindow s5;
          s7 = host_call Is_online s6
      in (case probe of
            Rejects e \<Rightarrow> (Inl e, s7)
          | Resolves online \<Rightarrow>
              (Inr (), if online then loadURL URL s7 else loadFile OFFLINE_URL s7)))"

definition createWindow ::
  "(string \<Rightarrow> exn + json) \<Rightarrow> rect \<Rightarrow> probe_outcome \<Rightarrow> fs_session
     \<Rightarrow> (exn + unit) \<times> fs_session" where
  "createWindow parse placed probe s =
     (case getWindowState parse s of
        (Inl e, s1) \<Rightarrow> (Inl e, s1)
      | (Inr windowState, s1) \<Rightarrow> open_window windowState placed probe s1)"


section \<open>The shell that keeps the record in a store\<close>

text \<open>
  \<open>main.ts\<close> keeps the record in an \<open>electron-store\<close> object under the key \<open>windowState\<close>.
  The store is a library: its \<open>get\<close> and \<open>set\<close> are parameters, \<open>set\<close> may throw.
\<close>

record 's store_session = session +
  store :: 's

definition store_defaults :: obj where
  "store_defaults =
     [(''windowState'',
       JObj [(''width'', JNum 992), (''height'', JNum 600), (''isMaximized'', JBool False)])]"

definition getWindowState_main ::
  "('s \<Rightarrow> string \<Rightarrow> obj) \<Rightarrow> 's store_session \<Rightarrow> obj \<times> 's store_session" where
  "getWindowState_main store_get s =
     (store_get (store s) ''windowState'', host_call (Store_get ''windowState'') s)"

definition saveWindowState_main ::
  "('s \<Rightarrow> string \<Rightarrow> json \<Rightarrow> exn + 's) \<Rightarrow> 's store_session
     \<Rightarrow> (exn + unit) \<times> 's store_session" where
  "saveWindowState_main store_set s =
     (case mainWindow s of
        None \<Rightarrow> (Inr (), s)
      | Some w \<Rightarrow>
          (let s1 = host_call (Store_set ''windowState'' (state_of w))
                      (host_call Get_bounds (host_call Is_maximized s))
           in case store_set (store s) ''windowState'' (state_of w) of
                Inl e \<Rightarrow> (Inl e, s1)
              | Inr st \<Rightarrow> (Inr (), s1\<lparr>store := st\<rparr>)))"

definition createWindow_main ::
  "('s \<Rightarrow> string \<Rightarrow> obj) \<Rightarrow> rect \<Rightarrow> probe_outcome \<Rightarrow> 's store_session
     \<Rightarrow> (exn + unit) \<times> 's store_session" where
  "createWindow_main store_get placed probe s =
     (case getWindowState_main store_get s of
        (windowState, s1) \<Rightarrow> open_window windowState placed probe s1)"


section \<open>Index names\<close>

text \<open>An index name is made of digits only, and different indices have different names.\<close>

lemma dec_nonempty: "dec n \<noteq> []"
  by (subst dec.simps) simp

lemma of_char_digit: "k < 10 \<Longrightarrow> of_char (char_of (48 + k::nat) :: char) = 48 + k"
  by simp

lemma dec_chars: "c \<in> set (dec n) \<Longrightarrow> of_char c < (58::nat)"
proof (induction n rule: dec.induct)
  case (1 n)
  show ?case
  proof (cases "n < 10")
    case True
    with 1(2) have "c = char_of (48 + n)" by (subst (asm) dec.simps) simp
    with True show ?thesis by (simp add: of_char_digit)
  next
    case False
    with 1(2) have "c \<in> set (dec (n div 10)) \<or> c = char_of (48 + n mod 10)"
      by (subst (asm) dec.simps) auto
    then show ?thesis
    proof
      assume "c \<in> set (dec (n div 10))"
      with 1(1) False show ?thesis by simp
    next
      assume "c = char_of (48 + n mod 10)"
      then show ?thesis by (simp add: of_char_digit)
    qed
  qed
qed

lemma digit_inj:
  assumes "j < 10" "k < 10" "(char_of (48 + j::nat) :: char) = char_of (48 + k::nat)"
  shows "j = k"
proof -
  from assms(3) have "of_char (char_of (48 + j) :: char) = (of_char (char_of (48 + k) :: char) :: nat)"
    by simp
  with assms(1,2) show ?thesis by (simp only: of_char_digit add_left_cancel)
qed

lemma dec_inj: "dec n = dec m \<Longrightarrow> n = m"
proof (induction n arbitrary: m rule: dec.induct)
  case (1 n)
  have n: "dec n = (if n < 10 then [char_of (48 + n)] else dec (n div 10) @ [char_of (48 + n mod 10)])"
    by (subst dec.simps) simp
  have m: "dec m = (if m < 10 then [char_of (48 + m)] else dec (m div 10) @ [char_of (48 + m mod 10)])"
    by (subst dec.simps) simp
  show ?case
  proof (cases "n < 10")
    case True
    show ?thesis
    proof (cases "m < 10")
      case True
      with \<open>n < 10\<close> 1(2) n m show ?thesis
        by (simp add: digit_inj)
    next
      case False
      with \<open>n < 10\<close> 1(2) n m dec_nonempty[of "m div 10"] show ?thesis
        by (simp add: Cons_eq_append_conv)
    qed
  next
    case False
    show ?thesis
    proof (cases "m < 10")
      case True
      with False 1(2) n m dec_nonempty[of "n div 10"] show ?thesis
        by (simp add: append_eq_Cons_conv)
    next
      case mf: False
      from False mf 1(2) n m have e: "dec (n div 10) = dec (m div 10)" "(char_of (48 + n mod 10) :: char) = char_of (48 + m mod 10)"
        by simp_all
      from 1(1)[OF False e(1)] have "n div 10 = m div 10" .
      moreover from e(2) have "n mod 10 = m mod 10" by (intro digit_inj) auto
      ultimately show ?thesis by (metis div_mult_mod_eq)
    qed
  qed
qed


section \<open>Object spread\<close>

lemma digits_value_snoc: "digits_value (k @ [c]) = 10 * digits_value k + (of_char c - 48)"
  by (simp add: digits_value_def)

lemma digits_value_dec: "digits_value (dec n) = n"
proof (induction n rule: dec.induct)
  case (1 n)
  show ?case
  proof (cases "n < 10")
    case True
    then show ?thesis
      by (subst dec.simps) (simp add: digits_value_def of_char_digit)
  next
    case False
    have "digits_value (dec n) = 10 * digits_value (dec (n div 10)) + n mod 10"
      using False by (subst dec.simps) (simp add: digits_value_snoc of_char_digit)
    with 1 False show ?thesis by simp
  qed
qed

lemma array_index_dec: "n < 4294967295 \<Longrightarrow> array_index (dec n) = Some n"
  by (simp add: array_index_def digits_value_dec)

lemma array_index_SomeD: "array_index k = Some n \<Longrightarrow> k = dec n \<and> n < 4294967295"
  by (auto simp: array_index_def split: if_splits)

lemma array_index_name: "\<not> of_char (hd k) < (58::nat) \<Longrightarrow> array_index k = None"
proof (cases "array_index k")
  case None
  then show ?thesis .
next
  case (Some n)
  assume h: "\<not> of_char (hd k) < (58::nat)"
  from Some have "k = dec n" by (simp add: array_index_SomeD)
  moreover have "hd (dec n) \<in> set (dec n)" by (simp add: dec_nonempty)
  ultimately show ?thesis using h dec_chars by blast
qed

lemma map_of_insert_index:
  "map_of ob k = None \<Longrightarrow> map_of (insert_index n k x ob) = (map_of ob)(k \<mapsto> x)"
proof (induction ob)
  case Nil
  then show ?case by simp
next
  case (Cons p ob)
  obtain k' x' where p: "p = (k', x')" by (cases p)
  from Cons.prems p have ne: "k' \<noteq> k" and rest: "map_of ob k = None"
    by (auto split: if_splits)
  from Cons.IH[OF rest] ne p show ?case
    by (auto simp: fun_upd_twist split: option.splits)
qed

lemma map_of_set_prop: "map_of (set_prop k x ob) = (map_of ob)(k \<mapsto> x)"
  by (auto simp: set_prop_def update_conv' map_of_insert_index map_add_def fun_eq_iff
      split: option.splits)

lemma map_of_fold_set_prop:
  "map_of (fold (\<lambda>(k, x). set_prop k x) kvs t) = map_of t ++ map_of (rev kvs)"
proof (induction kvs arbitrary: t)
  case Nil
  then show ?case by simp
next
  case (Cons p kvs)
  obtain k v where p: "p = (k, v)" by (cases p)
  show ?case
    by (simp add: p Cons.IH map_of_set_prop)
      (auto simp: map_add_def fun_eq_iff split: option.splits)
qed

lemma get_prop_spread:
  "get_prop (spread t v) k =
     (case map_of (rev (own_props v)) k of Some x \<Rightarrow> Some x | None \<Rightarrow> get_prop t k)"
  by (simp add: get_prop_def spread_def map_of_fold_set_prop map_add_def split: option.splits)

lemma set_prop_present: "map_of ob k = Some y \<Longrightarrow> set_prop k x ob = AList.update k x ob"
  by (simp add: set_prop_def)

lemma set_prop_named:
  "map_of ob k = None \<Longrightarrow> \<not> of_char (hd k) < (58::nat) \<Longrightarrow> set_prop k x ob = ob @ [(k, x)]"
  by (simp add: set_prop_def array_index_name)

lemma insert_index_after:
  assumes "\<forall>p \<in> set front. \<exists>m < n. array_index (fst p) = Some m"
      and "rest = [] \<or> array_index (fst (hd rest)) = None"
  shows "insert_index n k x (front @ rest) = front @ (k, x) # rest"
  using assms
proof (induction front)
  case Nil
  then show ?case by (cases rest) auto
next
  case (Cons p front)
  then show ?case by auto
qed

lemma set_prop_new_index:
  "map_of ob (dec n) = None \<Longrightarrow> n < 4294967295 \<Longrightarrow>
   set_prop (dec n) x ob = insert_index n (dec n) x ob"
  by (simp add: set_prop_def array_index_dec)

lemma set_prop_index:
  assumes "map_of (front @ rest) (dec n) = None"
      and "n < 4294967295"
      and "\<forall>p \<in> set front. \<exists>m < n. array_index (fst p) = Some m"
      and "rest = [] \<or> array_index (fst (hd rest)) = None"
  shows "set_prop (dec n) x (front @ rest) = front @ (dec n, x) # rest"
  by (simp only: set_prop_new_index[OF assms(1,2)] insert_index_after[OF assms(3,4)])

lemma fold_set_prop_indices:
  assumes "map fst front = map dec [0..<j]"
      and "j + length xs \<le> 4294967295"
      and "rest = [] \<or> array_index (fst (hd rest)) = None"
      and "\<forall>n. dec n \<notin> fst ` set rest"
  shows "fold (\<lambda>(k, x). set_prop k x) (zip (map dec [j..<j + length xs]) xs) (front @ rest)
         = front @ zip (map dec [j..<j + length xs]) xs @ rest"
  using assms(1,2)
proof (induction xs arbitrary: j front)
  case Nil
  then show ?case by simp
next
  case (Cons x xs)
  have up: "[j..<j + length (x # xs)] = j # [Suc j..<Suc j + length xs]"
  proof -
    have "j < j + length (x # xs)" by simp
    from upt_conv_Cons[OF this] show ?thesis
      by (simp only: length_Cons add_Suc_right add_Suc)
  qed
  have keys: "fst ` set front = dec ` {0..<j}"
  proof -
    have "fst ` set front = set (map fst front)" by simp
    also have "\<dots> = dec ` {0..<j}" by (simp only: Cons.prems(1)) simp
    finally show ?thesis .
  qed
  have "dec j \<notin> fst ` set front"
  proof
    assume "dec j \<in> fst ` set front"
    with keys obtain m where "dec j = dec m" "m < j" by auto
    then show False using dec_inj[of j m] by simp
  qed
  with assms(4) have fresh: "map_of (front @ rest) (dec j) = None"
    by (simp add: map_of_eq_None_iff image_Un)
  have small: "\<forall>p \<in> set front. \<exists>m < j. array_index (fst p) = Some m"
  proof
    fix p assume "p \<in> set front"
    then have "fst p \<in> dec ` {0..<j}" using keys by auto
    then obtain m where m: "fst p = dec m" "m < j" by auto
    with Cons.prems(2) have "array_index (fst p) = Some m" by (simp add: array_index_dec)
    with m show "\<exists>m < j. array_index (fst p) = Some m" by blast
  qed
  from Cons.prems(2) have j: "j < 4294967295" by simp
  have step: "set_prop (dec j) x (front @ rest) = (front @ [(dec j, x)]) @ rest"
    using set_prop_index[OF fresh j small assms(3)] by simp
  have "map fst (front @ [(dec j, x)]) = map dec [0..<Suc j]"
    using Cons.prems(1) by simp
  moreover from Cons.prems(2) have "Suc j + length xs \<le> 4294967295" by simp
  ultimately have "fold (\<lambda>(k, x). set_prop k x) (zip (map dec [Suc j..<Suc j + length xs]) xs)
      ((front @ [(dec j, x)]) @ rest)
    = (front @ [(dec j, x)]) @ zip (map dec [Suc j..<Suc j + length xs]) xs @ rest"
    by (rule Cons.IH)
  then show ?case
    by (simp only: up list.map zip_Cons_Cons fold_simps step prod.case) simp
qed


section \<open>What loading returns and touches\<close>

lemmas host_defs = host_call_def with_window_def new_BrowserWindow_def maximize_def on_def
  once_def loadURL_def loadFile_def console_error_def

lemma getWindowState_value:
  "fst (getWindowState parse s) =
     Inr (case config_file s of
            None \<Rightarrow> defaultWindowState
          | Some data \<Rightarrow>
              (if read_fails s then defaultWindowState
               else (case parse data of
                       Inl e \<Rightarrow> defaultWindowState
                     | Inr v \<Rightarrow> spread defaultWindowState v)))"
  by (auto simp: getWindowState_def try_load_def existsSync_def readFileSync_def host_defs
      split: option.splits sum.splits)

lemma default_keys_not_index: "k \<in> fst ` set defaultWindowState \<Longrightarrow> k \<noteq> dec n"
proof
  assume k: "k \<in> fst ` set defaultWindowState" and e: "k = dec n"
  from k have "CHR ''i'' \<in> set k" by (auto simp: defaultWindowState_def)
  with e have "of_char (CHR ''i'') < (58::nat)" using dec_chars by blast
  then show False by simp
qed

lemmas load_defs = getWindowState_def try_load_def existsSync_def readFileSync_def


section \<open>The load decision\<close>

text \<open>
  C1, as the code has it. When the probe resolves to true the window is pointed at the
  remote URL \<open>https://monkeytype.com/\<close>, when it resolves to false at the local
  document \<open>offline.html\<close>. When the probe rejects, neither \<open>createWindow\<close> catches
  it: the call fails with the probe's error and the window is given nothing to load.
\<close>

theorem createWindow_load_decision:
  "map_option content (mainWindow (snd (createWindow parse placed probe s))) =
     Some (case probe of
             Resolves online \<Rightarrow>
               Some (if online then Remote ''https://monkeytype.com/''
                     else LocalFile ''offline.html'')
           | Rejects e \<Rightarrow> None)
   \<and> fst (createWindow parse placed probe s) =
       (case probe of Resolves online \<Rightarrow> Inr () | Rejects e \<Rightarrow> Inl e)
   \<and> map_option content (mainWindow (snd (createWindow_main store_get placed probe t))) =
     Some (case probe of
             Resolves online \<Rightarrow>
               Some (if online then Remote ''https://monkeytype.com/''
                     else LocalFile ''offline.html'')
           | Rejects e \<Rightarrow> None)
   \<and> fst (createWindow_main store_get placed probe t) =
       (case probe of Resolves online \<Rightarrow> Inr () | Rejects e \<Rightarrow> Inl e)"
proof -
  have body: "map_option content (mainWindow (snd (open_window ws placed probe u))) =
     Some (case probe of
             Resolves online \<Rightarrow>
               Some (if online then Remote ''https://monkeytype.com/''
                     else LocalFile ''offline.html'')
           | Rejects e \<Rightarrow> None)
     \<and> fst (open_window ws placed probe u) =
       (case probe of Resolves online \<Rightarrow> Inr () | Rejects e \<Rightarrow> Inl e)"
    for ws and u :: "'z session_scheme"
    by (simp add: open_window_def Let_def host_defs URL_def OFFLINE_URL_def
        split: probe_outcome.splits)
  obtain ws s1 where g: "getWindowState parse s = (Inr ws, s1)"
    using getWindowState_value[of parse s] by (cases "getWindowState parse s") auto
  show ?thesis
    using body[of ws s1] body[of "store_get (store t) ''windowState''"
        "host_call (Store_get ''windowState'') t"]
    by (simp add: createWindow_def createWindow_main_def getWindowState_main_def g)
qed

text \<open>
  C1 as stated fails: on a first run with a probe that rejects, \<open>createWindow\<close> fails
  with the probe's error and the window has no content source, not \<open>offline.html\<close>.
\<close>

theorem createWindow_probe_throws_counterexample:
  "fst (createWindow (\<lambda>data. Inl SyntaxError)
          \<lparr>rect_x = 0, rect_y = 0, rect_width = 992, rect_height = 600\<rparr>
          (Rejects ProbeError)
          \<lparr>mainWindow = None, calls = [], config_file = None, read_fails = False,
           write_fails = False\<rparr>) = Inl ProbeError
   \<and> map_option content (mainWindow (snd (createWindow (\<lambda>data. Inl SyntaxError)
          \<lparr>rect_x = 0, rect_y = 0, rect_width = 992, rect_height = 600\<rparr>
          (Rejects ProbeError)
          \<lparr>mainWindow = None, calls = [], config_file = None, read_fails = False,
           write_fails = False\<rparr>))) = Some None"
  by (simp add: createWindow_def load_defs open_window_def Let_def host_defs
      defaultWindowState_def get_prop_def)


section \<open>Saving, then loading\<close>

lemma saveWindowState_written:
  "mainWindow s = Some w \<Longrightarrow> \<not> write_fails s \<Longrightarrow>
   snd (saveWindowState stringify s) =
     s\<lparr>calls := calls s @ [Is_maximized, Get_bounds, Write_file_sync (stringify (state_of w))],
       config_file := Some (stringify (state_of w))\<rparr>"
  by (simp add: saveWindowState_def writeFileSync_def host_defs)

lemma saveWindowState_refused:
  "mainWindow s = Some w \<Longrightarrow> write_fails s \<Longrightarrow>
   fst (getWindowState parse (snd (saveWindowState stringify s))) = fst (getWindowState parse s)"
  by (simp add: getWindowState_value saveWindowState_def writeFileSync_def host_defs
      split: option.splits)

text \<open>
  C2. Let the live window report the state \<open>S\<close>: bounds \<open>x\<close>, \<open>y\<close>, \<open>width\<close>, \<open>height\<close> and
  the maximized flag. When the file system accepts the write and the read, and
  \<open>JSON.parse\<close> gives back the record \<open>JSON.stringify\<close> was given, \<open>saveWindowState\<close>
  followed by \<open>getWindowState\<close> returns a record with the five fields of \<open>S\<close>. Nothing
  is asked of the numbers: positive sizes are a special case.
\<close>

theorem save_then_load_roundtrip:
  assumes "mainWindow s = Some w"
      and "\<not> write_fails s"
      and "\<not> read_fails s"
      and "parse (stringify (state_of w)) = Inr (state_of w)"
  shows "\<exists>r. fst (getWindowState parse (snd (saveWindowState stringify s))) = Inr r
           \<and> get_prop r ''width'' = Some (JNum (rect_width (bounds w)))
           \<and> get_prop r ''height'' = Some (JNum (rect_height (bounds w)))
           \<and> get_prop r ''x'' = Some (JNum (rect_x (bounds w)))
           \<and> get_prop r ''y'' = Some (JNum (rect_y (bounds w)))
           \<and> get_prop r ''isMaximized'' = Some (JBool (maximized w))"
proof -
  let ?s1 = "snd (saveWindowState stringify s)"
  have "fst (getWindowState parse ?s1) = Inr (spread defaultWindowState (state_of w))"
    using assms by (simp add: getWindowState_value saveWindowState_written)
  moreover have "get_prop (spread defaultWindowState (state_of w)) ''width''
      = Some (JNum (rect_width (bounds w)))"
    by (simp add: get_prop_spread state_of_def)
  moreover have "get_prop (spread defaultWindowState (state_of w)) ''height''
      = Some (JNum (rect_height (bounds w)))"
    by (simp add: get_prop_spread state_of_def)
  moreover have "get_prop (spread defaultWindowState (state_of w)) ''x''
      = Some (JNum (rect_x (bounds w)))"
    by (simp add: get_prop_spread state_of_def)
  moreover have "get_prop (spread defaultWindowState (state_of w)) ''y''
      = Some (JNum (rect_y (bounds w)))"
    by (simp add: get_prop_spread state_of_def)
  moreover have "get_prop (spread defaultWindowState (state_of w)) ''isMaximized''
      = Some (JBool (maximized w))"
    by (simp add: get_prop_spread state_of_def)
  ultimately show ?thesis by simp
qed

text \<open>The round trip on a maximized window of 1280 by 720 at (40, 25).\<close>

theorem save_then_load_roundtrip_witness:
  "mainWindow \<lparr>mainWindow = Some \<lparr>options = \<lparr>opt_width = Some (JNum 992), opt_height = Some (JNum 600),
                 opt_x = None, opt_y = None, opt_show = False\<rparr>,
               bounds = \<lparr>rect_x = 40, rect_y = 25, rect_width = 1280, rect_height = 720\<rparr>,
               maximized = True, content = Some (Remote URL)\<rparr>,
       calls = [], config_file = None, read_fails = False, write_fails = False\<rparr>
   = Some \<lparr>options = \<lparr>opt_width = Some (JNum 992), opt_height = Some (JNum 600),
                 opt_x = None, opt_y = None, opt_show = False\<rparr>,
               bounds = \<lparr>rect_x = 40, rect_y = 25, rect_width = 1280, rect_height = 720\<rparr>,
               maximized = True, content = Some (Remote URL)\<rparr>
   \<and> (\<exists>r. fst (getWindowState
          (\<lambda>data. Inr (JObj [(''width'', JNum 1280), (''height'', JNum 720), (''x'', JNum 40),
                              (''y'', JNum 25), (''isMaximized'', JBool True)]))
          (snd (saveWindowState (\<lambda>v. ''saved'')
             \<lparr>mainWindow = Some \<lparr>options = \<lparr>opt_width = Some (JNum 992), opt_height = Some (JNum 600),
                 opt_x = None, opt_y = None, opt_show = False\<rparr>,
               bounds = \<lparr>rect_x = 40, rect_y = 25, rect_width = 1280, rect_height = 720\<rparr>,
               maximized = True, content = Some (Remote URL)\<rparr>,
              calls = [], config_file = None, read_fails = False, write_fails = False\<rparr>))) = Inr r
        \<and> get_prop r ''width'' = Some (JNum 1280)
        \<and> get_prop r ''height'' = Some (JNum 720)
        \<and> get_prop r ''x'' = Some (JNum 40)
        \<and> get_prop r ''y'' = Some (JNum 25)
        \<and> get_prop r ''isMaximized'' = Some (JBool True))"
  using save_then_load_roundtrip
    [of "\<lparr>mainWindow = Some \<lparr>options = \<lparr>opt_width = Some (JNum 992), opt_height = Some (JNum 600),
                 opt_x = None, opt_y = None, opt_show = False\<rparr>,
               bounds = \<lparr>rect_x = 40, rect_y = 25, rect_width = 1280, rect_height = 720\<rparr>,
               maximized = True, content = Some (Remote URL)\<rparr>,
          calls = [], config_file = None, read_fails = False, write_fails = False\<rparr>"
        "\<lparr>options = \<lparr>opt_width = Some (JNum 992), opt_height = Some (JNum 600),
                 opt_x = None, opt_y = None, opt_show = False\<rparr>,
               bounds = \<lparr>rect_x = 40, rect_y = 25, rect_width = 1280, rect_height = 720\<rparr>,
               maximized = True, content = Some (Remote URL)\<rparr>"
        "\<lambda>data. Inr (JObj [(''width'', JNum 1280), (''height'', JNum 720), (''x'', JNum 40),
                              (''y'', JNum 25), (''isMaximized'', JBool True)])"
        "\<lambda>v. ''saved''"]
  by (simp add: state_of_def)


section \<open>Loading content that is not a record\<close>

lemma default_first_not_index:
  "defaultWindowState = [] \<or> array_index (fst (hd defaultWindowState)) = None"
  by (simp add: defaultWindowState_def array_index_name)

lemma index_props_first:
  assumes "\<forall>kvs. v \<noteq> JObj kvs"
      and "length (own_props v) \<le> 4294967295"
  shows "spread defaultWindowState v = own_props v @ defaultWindowState"
proof -
  have none: "\<forall>n. dec n \<notin> fst ` set defaultWindowState"
    using default_keys_not_index by blast
  have run: "fold (\<lambda>(k, x). set_prop k x) (zip (map dec [0..<length xs]) xs) defaultWindowState
             = zip (map dec [0..<length xs]) xs @ defaultWindowState"
    if "length xs \<le> 4294967295" for xs :: "json list"
    using fold_set_prop_indices[of "[]" 0 xs defaultWindowState, OF _ _ default_first_not_index none]
      that by simp
  show ?thesis
  proof (cases v)
    case (JStr s)
    with assms(2) run[of "map (\<lambda>c. JStr [c]) s"] show ?thesis
      by (simp add: spread_def)
  next
    case (JArr xs)
    with assms(2) run[of xs] show ?thesis
      by (simp add: spread_def)
  next
    case (JObj kvs)
    with assms(1) show ?thesis by simp
  qed (simp_all add: spread_def)
qed

lemma window_fields_not_index:
  "k \<in> {''width'', ''height'', ''x'', ''y'', ''isMaximized''} \<Longrightarrow> k \<noteq> dec n"
proof
  assume k: "k \<in> {''width'', ''height'', ''x'', ''y'', ''isMaximized''}" and e: "k = dec n"
  from k have "\<not> of_char (hd k) < (58::nat)" by auto
  moreover have "hd (dec n) \<in> set (dec n)" by (simp add: dec_nonempty)
  ultimately show False using e dec_chars by blast
qed

lemma index_props_lookup:
  assumes "\<forall>kvs. v \<noteq> JObj kvs"
      and "k \<in> {''width'', ''height'', ''x'', ''y'', ''isMaximized''}"
  shows "map_of (rev (own_props v)) k = None"
proof -
  have "\<exists>n. map fst (own_props v) = map dec [0..<n]"
    using assms(1) by (cases v) auto
  then obtain n where n: "map fst (own_props v) = map dec [0..<n]" ..
  have "fst ` set (own_props v) = set (map fst (own_props v))" by simp
  also have "\<dots> = dec ` {0..<n}" by (simp only: n) simp
  finally have "k \<notin> fst ` set (own_props v)"
    using window_fields_not_index[OF assms(2)] by blast
  then show ?thesis by (simp add: map_of_eq_None_iff)
qed

text \<open>
  C3, as the code has it. When the file exists and cannot be read, or its content does not
  parse, or parses to a value that is not an object, \<open>getWindowState\<close> returns without
  throwing, and the record it returns has the fields of the default record: width 992,
  height 600, isMaximized false, no x, no y. It is the default record itself when the read
  or the parse fails and when the value is null, a boolean or a number; a string or an
  array is spread into it and adds one property per character or element, named by its
  index. Being array indices (a string or an array has fewer than \<open>2^32\<close> entries), these
  properties are enumerated before the default ones.
\<close>

theorem load_malformed_content:
  assumes "config_file s = Some data"
      and "read_fails s \<or> (\<exists>e. parse data = Inl e)
           \<or> (\<exists>v. parse data = Inr v \<and> (\<forall>kvs. v \<noteq> JObj kvs))"
  shows "\<exists>r. fst (getWindowState parse s) = Inr r
           \<and> (length (if read_fails s then []
                       else case parse data of Inl e \<Rightarrow> [] | Inr v \<Rightarrow> own_props v)
                 \<le> 4294967295 \<longrightarrow>
               r = (if read_fails s then []
                    else case parse data of Inl e \<Rightarrow> [] | Inr v \<Rightarrow> own_props v)
                   @ defaultWindowState)
           \<and> get_prop r ''width'' = Some (JNum 992)
           \<and> get_prop r ''height'' = Some (JNum 600)
           \<and> get_prop r ''x'' = None
           \<and> get_prop r ''y'' = None
           \<and> get_prop r ''isMaximized'' = Some (JBool False)"
proof (cases "read_fails s \<or> (\<exists>e. parse data = Inl e)")
  case True
  then have "fst (getWindowState parse s) = Inr defaultWindowState"
    using assms(1) by (auto simp: getWindowState_value)
  with True show ?thesis
    by (auto simp: get_prop_def defaultWindowState_def)
next
  case False
  with assms(2) obtain v where v: "parse data = Inr v" "\<forall>kvs. v \<noteq> JObj kvs" by blast
  from False v assms(1) have r: "fst (getWindowState parse s) = Inr (spread defaultWindowState v)"
    by (simp add: getWindowState_value)
  have f: "get_prop (spread defaultWindowState v) k = get_prop defaultWindowState k"
    if "k \<in> {''width'', ''height'', ''x'', ''y'', ''isMaximized''}" for k
    using index_props_lookup[OF v(2) that] by (simp add: get_prop_spread)
  have "get_prop (spread defaultWindowState v) ''width'' = Some (JNum 992)"
    "get_prop (spread defaultWindowState v) ''height'' = Some (JNum 600)"
    "get_prop (spread defaultWindowState v) ''x'' = None"
    "get_prop (spread defaultWindowState v) ''y'' = None"
    "get_prop (spread defaultWindowState v) ''isMaximized'' = Some (JBool False)"
    by (simp_all add: f) (simp_all add: get_prop_def defaultWindowState_def)
  with r False v index_props_first[OF v(2)] show ?thesis by simp
qed

text \<open>The file holds the JSON string \<open>hi\<close> in double quotes.\<close>

theorem load_malformed_content_witness:
  "\<exists>r. fst (getWindowState (\<lambda>data. Inr (JStr ''hi''))
           \<lparr>mainWindow = None, calls = [],
            config_file = Some (CHR 0x22 # ''hi'' @ [CHR 0x22]),
            read_fails = False, write_fails = False\<rparr>) = Inr r
      \<and> r = [(''0'', JStr ''h''), (''1'', JStr ''i'')] @ defaultWindowState
      \<and> get_prop r ''width'' = Some (JNum 992)
      \<and> get_prop r ''height'' = Some (JNum 600)
      \<and> get_prop r ''x'' = None
      \<and> get_prop r ''y'' = None
      \<and> get_prop r ''isMaximized'' = Some (JBool False)"
proof -
  have d: "dec 0 = ''0''" "dec (Suc 0) = ''1''" by code_simp+
  have u: "[0..<2] = [0, Suc 0]" by (simp add: upt_rec)
  show ?thesis
    using load_malformed_content
      [of "\<lparr>mainWindow = None, calls = [],
            config_file = Some (CHR 0x22 # ''hi'' @ [CHR 0x22]),
            read_fails = False, write_fails = False\<rparr>"
          "CHR 0x22 # ''hi'' @ [CHR 0x22]" "\<lambda>data. Inr (JStr ''hi'')"]
    by (simp add: d u)
qed

text \<open>
  C3 as stated fails: from a file holding the JSON string \<open>hi\<close> in double quotes,
  \<open>getWindowState\<close> returns a record with the properties \<open>0\<close> and \<open>1\<close> next to the default
  ones, which is not what it returns when no file exists.
\<close>

theorem load_string_content_counterexample:
  "fst (getWindowState (\<lambda>data. Inr (JStr ''hi''))
           \<lparr>mainWindow = None, calls = [],
            config_file = Some (CHR 0x22 # ''hi'' @ [CHR 0x22]),
            read_fails = False, write_fails = False\<rparr>)
     = Inr [(''0'', JStr ''h''), (''1'', JStr ''i''),
            (''width'', JNum 992), (''height'', JNum 600), (''isMaximized'', JBool False)]
   \<and> map_sum id (\<lambda>r. get_prop r ''0'')
         (fst (getWindowState (\<lambda>data. Inr (JStr ''hi''))
           \<lparr>mainWindow = None, calls = [],
            config_file = Some (CHR 0x22 # ''hi'' @ [CHR 0x22]),
            read_fails = False, write_fails = False\<rparr>)) = Inr (Some (JStr ''h''))
   \<and> get_prop defaultWindowState ''0'' = None
   \<and> fst (getWindowState (\<lambda>data. Inr (JStr ''hi''))
           \<lparr>mainWindow = None, calls = [],
            config_file = Some (CHR 0x22 # ''hi'' @ [CHR 0x22]),
            read_fails = False, write_fails = False\<rparr>) \<noteq> Inr defaultWindowState"
proof -
  have d: "dec 0 = ''0''" "dec (Suc 0) = ''1''" by code_simp+
  have u: "[0..<2] = [0, Suc 0]" by (simp add: upt_rec)
  have "spread defaultWindowState (JStr ''hi'') = own_props (JStr ''hi'') @ defaultWindowState"
    by (rule index_props_first) simp_all
  then show ?thesis
    by (simp add: getWindowState_value defaultWindowState_def get_prop_def d u)
qed


section \<open>Loading a partial record\<close>

text \<open>
  C4. When the file parses to an object, every property the object has overrides the
  default, and every property it lacks keeps the default value: a file holding only
  \<open>isMaximized: true\<close> loads as width 992, height 600, isMaximized true.
\<close>

theorem load_partial_record:
  assumes "config_file s = Some data"
      and "\<not> read_fails s"
      and "parse data = Inr (JObj kvs)"
      and "distinct (map fst kvs)"
  shows "\<exists>r. fst (getWindowState parse s) = Inr r
           \<and> (\<forall>k. get_prop r k =
                  (case get_prop kvs k of
                     Some v \<Rightarrow> Some v
                   | None \<Rightarrow> get_prop defaultWindowState k))"
proof -
  have "map_of (rev kvs) = map_of kvs"
    using assms(4) by (intro map_of_inject_set[THEN iffD2]) (simp_all add: rev_map[symmetric])
  then show ?thesis
    using assms(1-3) by (simp add: getWindowState_value get_prop_spread) (simp add: get_prop_def)
qed

text \<open>The file holds only \<open>isMaximized: true\<close>.\<close>

theorem load_partial_record_witness:
  "fst (getWindowState (\<lambda>data. Inr (JObj [(''isMaximized'', JBool True)]))
          \<lparr>mainWindow = None, calls = [],
           config_file = Some (''{'' @ CHR 0x22 # ''isMaximized'' @ CHR 0x22 # '': true}''),
           read_fails = False, write_fails = False\<rparr>)
     = Inr [(''width'', JNum 992), (''height'', JNum 600), (''isMaximized'', JBool True)]
   \<and> (\<exists>r. fst (getWindowState (\<lambda>data. Inr (JObj [(''isMaximized'', JBool True)]))
          \<lparr>mainWindow = None, calls = [],
           config_file = Some (''{'' @ CHR 0x22 # ''isMaximized'' @ CHR 0x22 # '': true}''),
           read_fails = False, write_fails = False\<rparr>) = Inr r
        \<and> (\<forall>k. get_prop r k =
               (case get_prop [(''isMaximized'', JBool True)] k of
                  Some v \<Rightarrow> Some v
                | None \<Rightarrow> get_prop defaultWindowState k)))"
  using load_partial_record
    [of "\<lparr>mainWindow = None, calls = [],
           config_file = Some (''{'' @ CHR 0x22 # ''isMaximized'' @ CHR 0x22 # '': true}''),
           read_fails = False, write_fails = False\<rparr>"
        "''{'' @ CHR 0x22 # ''isMaximized'' @ CHR 0x22 # '': true}''"
        "\<lambda>data. Inr (JObj [(''isMaximized'', JBool True)])"
        "[(''isMaximized'', JBool True)]"]
  by (simp add: getWindowState_value spread_def set_prop_present defaultWindowState_def)


section \<open>Loading on a first run\<close>

text \<open>
  C5. When no file exists, \<open>getWindowState\<close> returns exactly width 992, height 600,
  isMaximized false, with neither x nor y; the store of \<open>main.ts\<close> is given the same
  record as its default.
\<close>

theorem load_default_on_first_run:
  assumes "config_file s = None"
  shows "\<exists>r. fst (getWindowState parse s) = Inr r
           \<and> r = [(''width'', JNum 992), (''height'', JNum 600), (''isMaximized'', JBool False)]
           \<and> get_prop r ''x'' = None
           \<and> get_prop r ''y'' = None
           \<and> get_prop store_defaults ''windowState'' = Some (JObj r)"
  using assms
  by (simp add: getWindowState_value defaultWindowState_def store_defaults_def get_prop_def)

theorem load_default_on_first_run_witness:
  "fst (getWindowState (\<lambda>data. Inl SyntaxError)
          \<lparr>mainWindow = None, calls = [], config_file = None, read_fails = False,
           write_fails = False\<rparr>)
     = Inr [(''width'', JNum 992), (''height'', JNum 600), (''isMaximized'', JBool False)]"
  using load_default_on_first_run
    [of "\<lparr>mainWindow = None, calls = [], config_file = None, read_fails = False,
           write_fails = False\<rparr>" "\<lambda>data. Inl SyntaxError"]
  by simp


section \<open>The size that loading returns\<close>

text \<open>
  C6, as the code has it. \<open>getWindowState\<close> checks nothing it reads. The width and the
  height it returns are positive integers when every width and height property of the
  parsed content is one, which covers a missing, unreadable or unparsable file and content
  with no such property; a stored width or height of any other kind is returned as it is.
\<close>

theorem load_positive_size:
  assumes "\<And>data v k x. config_file s = Some data \<Longrightarrow> \<not> read_fails s \<Longrightarrow> parse data = Inr v
             \<Longrightarrow> (k, x) \<in> set (own_props v) \<Longrightarrow> k = ''width'' \<or> k = ''height''
             \<Longrightarrow> \<exists>n. x = JNum n \<and> 0 < n"
  shows "\<exists>r w h. fst (getWindowState parse s) = Inr r
           \<and> get_prop r ''width'' = Some (JNum w) \<and> 0 < w
           \<and> get_prop r ''height'' = Some (JNum h) \<and> 0 < h"
proof -
  have sp: "\<exists>n. get_prop (spread defaultWindowState v) k = Some (JNum n) \<and> 0 < n"
    if k: "k = ''width'' \<or> k = ''height''"
      and ok: "\<And>x. (k, x) \<in> set (own_props v) \<Longrightarrow> \<exists>n. x = JNum n \<and> 0 < n"
    for v k
  proof (cases "map_of (rev (own_props v)) k")
    case None
    then have "get_prop (spread defaultWindowState v) k = get_prop defaultWindowState k"
      by (simp add: get_prop_spread)
    with k show ?thesis
      by (auto simp: get_prop_def defaultWindowState_def)
  next
    case (Some x)
    then have "(k, x) \<in> set (own_props v)" by (auto dest: map_of_SomeD)
    with ok Some show ?thesis by (auto simp: get_prop_spread)
  qed
  have dflt: "get_prop defaultWindowState ''width'' = Some (JNum 992)"
    "get_prop defaultWindowState ''height'' = Some (JNum 600)"
    by (simp_all add: get_prop_def defaultWindowState_def)
  show ?thesis
  proof (cases "\<exists>data v. config_file s = Some data \<and> \<not> read_fails s \<and> parse data = Inr v")
    case True
    then obtain data v where dv: "config_file s = Some data" "\<not> read_fails s" "parse data = Inr v"
      by blast
    then have r: "fst (getWindowState parse s) = Inr (spread defaultWindowState v)"
      by (simp add: getWindowState_value)
    from sp[of "''width''" v] assms[OF dv]
    obtain w where w: "get_prop (spread defaultWindowState v) ''width'' = Some (JNum w)" "0 < w"
      by blast
    from sp[of "''height''" v] assms[OF dv]
    obtain h where h: "get_prop (spread defaultWindowState v) ''height'' = Some (JNum h)" "0 < h"
      by blast
    from r w h show ?thesis by blast
  next
    case False
    then have "fst (getWindowState parse s) = Inr defaultWindowState"
      by (auto simp: getWindowState_value split: option.splits sum.splits)
    with dflt show ?thesis by auto
  qed
qed

text \<open>The file holds a width of 1280 and no height.\<close>

theorem load_positive_size_witness:
  "\<exists>r w h. fst (getWindowState
               (\<lambda>data. Inr (JObj [(''width'', JNum 1280), (''isMaximized'', JBool True)]))
               \<lparr>mainWindow = None, calls = [],
                config_file = Some (''{'' @ CHR 0x22 # ''width'' @ CHR 0x22 # '': 1280, ''
                                     @ CHR 0x22 # ''isMaximized'' @ CHR 0x22 # '': true}''),
                read_fails = False, write_fails = False\<rparr>) = Inr r
           \<and> get_prop r ''width'' = Some (JNum w) \<and> 0 < w
           \<and> get_prop r ''height'' = Some (JNum h) \<and> 0 < h"
proof (rule load_positive_size)
  fix data v k x
  assume "\<not> read_fails \<lparr>mainWindow = None, calls = [],
                config_file = Some (''{'' @ CHR 0x22 # ''width'' @ CHR 0x22 # '': 1280, ''
                                     @ CHR 0x22 # ''isMaximized'' @ CHR 0x22 # '': true}''),
                read_fails = False, write_fails = False\<rparr>"
    and "(\<lambda>data. Inr (JObj [(''width'', JNum 1280), (''isMaximized'', JBool True)])) data = Inr v"
    and "(k, x) \<in> set (own_props v)" and "k = ''width'' \<or> k = ''height''"
  then show "\<exists>n. x = JNum n \<and> 0 < n" by auto
qed

text \<open>
  C6 as stated fails: from a file holding \<open>width: -5\<close>, \<open>getWindowState\<close> returns the
  width \<open>-5\<close>.
\<close>

theorem load_negative_width_counterexample:
  "fst (getWindowState (\<lambda>data. Inr (JObj [(''width'', JNum (- 5))]))
          \<lparr>mainWindow = None, calls = [],
           config_file = Some (''{'' @ CHR 0x22 # ''width'' @ CHR 0x22 # '': -5}''),
           read_fails = False, write_fails = False\<rparr>)
     = Inr [(''width'', JNum (- 5)), (''height'', JNum 600), (''isMaximized'', JBool False)]"
  by (simp add: getWindowState_value spread_def set_prop_present defaultWindowState_def)


section \<open>Restoring the maximized flag\<close>

lemma open_window_maximized:
  fixes u :: "'z session_scheme"
  assumes "get_prop ws ''isMaximized'' = Some (JBool True)"
  shows "calls (snd (open_window ws placed probe u)) =
           calls u @
           [New_BrowserWindow \<lparr>opt_width = get_prop ws ''width'', opt_height = get_prop ws ''height'',
                               opt_x = get_prop ws ''x'', opt_y = get_prop ws ''y'',
                               opt_show = False\<rparr>,
            Maximize,
            On Resize SaveWindowState, On Move SaveWindowState, On Close SaveWindowState,
            Once ReadyToShow ShowWindow, Is_online] @
           (case probe of
              Resolves online \<Rightarrow> [if online then Load_URL URL else Load_file OFFLINE_URL]
            | Rejects e \<Rightarrow> [])"
    and "map_option options (mainWindow (snd (open_window ws placed probe u))) =
           Some \<lparr>opt_width = get_prop ws ''width'', opt_height = get_prop ws ''height'',
                 opt_x = get_prop ws ''x'', opt_y = get_prop ws ''y'', opt_show = False\<rparr>"
    and "map_option maximized (mainWindow (snd (open_window ws placed probe u))) = Some True"
  using assms
  by (simp_all add: open_window_def Let_def host_defs split: probe_outcome.splits)

lemma new_BrowserWindow_not_maximized:
  "map_option maximized (mainWindow (new_BrowserWindow opts placed u)) = Some False"
  by (simp add: host_defs)

text \<open>
  C7. When the loaded record has \<open>isMaximized\<close> true, the first call on the host after
  loading creates the window with the width, height, x and y of the record, and the next
  call maximizes it; the listeners, the probe and the load follow. The window keeps the
  options of the record and ends maximized. This holds for the \<open>createWindow\<close> of both
  files, whatever the probe does.
\<close>

theorem createWindow_maximize_after_creation:
  assumes "fst (getWindowState parse s) = Inr ws"
      and "get_prop ws ''isMaximized'' = Some (JBool True)"
      and "get_prop (store_get (store t) ''windowState'') ''isMaximized'' = Some (JBool True)"
  shows "calls (snd (createWindow parse placed probe s)) =
           calls (snd (getWindowState parse s)) @
           [New_BrowserWindow \<lparr>opt_width = get_prop ws ''width'', opt_height = get_prop ws ''height'',
                               opt_x = get_prop ws ''x'', opt_y = get_prop ws ''y'',
                               opt_show = False\<rparr>,
            Maximize,
            On Resize SaveWindowState, On Move SaveWindowState, On Close SaveWindowState,
            Once ReadyToShow ShowWindow, Is_online] @
           (case probe of
              Resolves online \<Rightarrow> [if online then Load_URL URL else Load_file OFFLINE_URL]
            | Rejects e \<Rightarrow> [])
         \<and> map_option options (mainWindow (snd (createWindow parse placed probe s))) =
           Some \<lparr>opt_width = get_prop ws ''width'', opt_height = get_prop ws ''height'',
                 opt_x = get_prop ws ''x'', opt_y = get_prop ws ''y'', opt_show = False\<rparr>
         \<and> map_option maximized (mainWindow (snd (createWindow parse placed probe s))) = Some True
         \<and> calls (snd (createWindow_main store_get placed probe t)) =
           calls t @
           [Store_get ''windowState'',
            New_BrowserWindow
              \<lparr>opt_width = get_prop (store_get (store t) ''windowState'') ''width'',
               opt_height = get_prop (store_get (store t) ''windowState'') ''height'',
               opt_x = get_prop (store_get (store t) ''windowState'') ''x'',
               opt_y = get_prop (store_get (store t) ''windowState'') ''y'',
               opt_show = False\<rparr>,
            Maximize,
            On Resize SaveWindowState, On Move SaveWindowState, On Close SaveWindowState,
            Once ReadyToShow ShowWindow, Is_online] @
           (case probe of
              Resolves online \<Rightarrow> [if online then Load_URL URL else Load_file OFFLINE_URL]
            | Rejects e \<Rightarrow> [])
         \<and> map_option maximized (mainWindow (snd (createWindow_main store_get placed probe t)))
             = Some True"
proof -
  obtain s1 where g: "getWindowState parse s = (Inr ws, s1)"
    using assms(1) by (cases "getWindowState parse s") auto
  show ?thesis
    using open_window_maximized[OF assms(2), of placed probe s1]
      open_window_maximized[OF assms(3), of placed probe "host_call (Store_get ''windowState'') t"]
    by (simp add: createWindow_def createWindow_main_def getWindowState_main_def g host_call_def)
qed

text \<open>A stored record of 1280 by 720 at (40, 25), maximized, with the probe online.\<close>

theorem createWindow_maximize_after_creation_witness:
  "calls (snd (createWindow
        (\<lambda>data. Inr (JObj [(''width'', JNum 1280), (''height'', JNum 720), (''x'', JNum 40),
                            (''y'', JNum 25), (''isMaximized'', JBool True)]))
        \<lparr>rect_x = 40, rect_y = 25, rect_width = 1280, rect_height = 720\<rparr>
        (Resolves True)
        \<lparr>mainWindow = None, calls = [], config_file = Some ''saved'', read_fails = False,
         write_fails = False\<rparr>)) =
     [Exists_sync, Read_file_sync,
      New_BrowserWindow \<lparr>opt_width = Some (JNum 1280), opt_height = Some (JNum 720),
                         opt_x = Some (JNum 40), opt_y = Some (JNum 25), opt_show = False\<rparr>,
      Maximize,
      On Resize SaveWindowState, On Move SaveWindowState, On Close SaveWindowState,
      Once ReadyToShow ShowWindow, Is_online, Load_URL ''https://monkeytype.com/'']
   \<and> map_option maximized (mainWindow (snd (createWindow_main (\<lambda>st key. st)
        \<lparr>rect_x = 40, rect_y = 25, rect_width = 1280, rect_height = 720\<rparr>
        (Resolves True)
        \<lparr>mainWindow = None, calls = [],
         store = [(''width'', JNum 1280), (''height'', JNum 720), (''x'', JNum 40),
                  (''y'', JNum 25), (''isMaximized'', JBool True)]\<rparr>))) = Some True"
  using createWindow_maximize_after_creation
    [of "\<lambda>data. Inr (JObj [(''width'', JNum 1280), (''height'', JNum 720), (''x'', JNum 40),
                            (''y'', JNum 25), (''isMaximized'', JBool True)])"
        "\<lparr>mainWindow = None, calls = [], config_file = Some ''saved'', read_fails = False,
         write_fails = False\<rparr>"
        "[(''width'', JNum 1280), (''height'', JNum 720), (''isMaximized'', JBool True),
          (''x'', JNum 40), (''y'', JNum 25)]"
        "\<lambda>st key. st"
        "\<lparr>mainWindow = None, calls = [],
         store = [(''width'', JNum 1280), (''height'', JNum 720), (''x'', JNum 40),
                  (''y'', JNum 25), (''isMaximized'', JBool True)]\<rparr>"
        "\<lparr>rect_x = 40, rect_y = 25, rect_width = 1280, rect_height = 720\<rparr>"
        "Resolves True"]
  by (simp add: getWindowState_value spread_def set_prop_present set_prop_named
      defaultWindowState_def get_prop_def
      load_defs host_defs URL_def)


section \<open>Saving when the write fails\<close>

text \<open>
  The \<open>saveWindowState\<close> that writes the file never throws; a refused write is tried once
  and logged.
\<close>

lemma saveWindowState_never_throws: "fst (saveWindowState stringify s) = Inr ()"
  by (simp add: saveWindowState_def writeFileSync_def split: option.splits)

lemma saveWindowState_failed_write:
  "mainWindow s = Some w \<Longrightarrow> write_fails s \<Longrightarrow>
   saveWindowState stringify s =
     (Inr (), s\<lparr>calls := calls s @
                 [Is_maximized, Get_bounds, Write_file_sync (stringify (state_of w)),
                  Console_error ''Failed to save window state:'' FsError]\<rparr>)"
  by (simp add: saveWindowState_def writeFileSync_def host_defs)

text \<open>
  C8 on \<open>main.ts\<close>. Its \<open>saveWindowState\<close> calls \<open>store.set\<close> outside any \<open>try\<close>: when
  the store throws on the write, the error reaches the caller and nothing is logged.
\<close>

theorem saveWindowState_main_write_failure:
  "saveWindowState_main (\<lambda>st key v. Inl StoreError)
     \<lparr>mainWindow = Some \<lparr>options = \<lparr>opt_width = Some (JNum 992), opt_height = Some (JNum 600),
                                     opt_x = None, opt_y = None, opt_show = False\<rparr>,
                          bounds = \<lparr>rect_x = 40, rect_y = 25, rect_width = 1280,
                                    rect_height = 720\<rparr>,
                          maximized = False, content = Some (Remote URL)\<rparr>,
      calls = [], store = ()\<rparr>
   = (Inl StoreError,
      \<lparr>mainWindow = Some \<lparr>options = \<lparr>opt_width = Some (JNum 992), opt_height = Some (JNum 600),
                                     opt_x = None, opt_y = None, opt_show = False\<rparr>,
                          bounds = \<lparr>rect_x = 40, rect_y = 25, rect_width = 1280,
                                    rect_height = 720\<rparr>,
                          maximized = False, content = Some (Remote URL)\<rparr>,
       calls = [Is_maximized, Get_bounds,
                Store_set ''windowState''
                  (JObj [(''width'', JNum 1280), (''height'', JNum 720), (''x'', JNum 40),
                         (''y'', JNum 25), (''isMaximized'', JBool False)])],
       store = ()\<rparr>)"
  by (simp add: saveWindowState_main_def Let_def host_defs state_of_def)


section \<open>Saving without a window\<close>

text \<open>
  C9. While \<open>mainWindow\<close> is unset, \<open>saveWindowState\<close> returns at once in both files:
  no call is made on the window, the file system or the store, and the session, with the
  persisted record, is left as it was.
\<close>

theorem saveWindowState_without_window:
  assumes "mainWindow s = None" and "mainWindow t = None"
  shows "saveWindowState stringify s = (Inr (), s)
         \<and> saveWindowState_main store_set t = (Inr (), t)"
  using assms by (simp add: saveWindowState_def saveWindowState_main_def)

theorem saveWindowState_without_window_witness:
  "saveWindowState (\<lambda>v. ''saved'')
     \<lparr>mainWindow = None, calls = [], config_file = Some ''kept'', read_fails = False,
      write_fails = False\<rparr>
   = (Inr (), \<lparr>mainWindow = None, calls = [], config_file = Some ''kept'', read_fails = False,
              write_fails = False\<rparr>)
   \<and> saveWindowState_main (\<lambda>st key v. Inr (Some v)) \<lparr>mainWindow = None, calls = [], store = None\<rparr>
   = (Inr (), \<lparr>mainWindow = None, calls = [], store = None\<rparr>)"
  using saveWindowState_without_window
    [of "\<lparr>mainWindow = None, calls = [], config_file = Some ''kept'', read_fails = False,
      write_fails = False\<rparr>"
        "\<lparr>mainWindow = None, calls = [], store = None\<rparr>"
        "\<lambda>v. ''saved''" "\<lambda>st key v. Inr (Some v)"]
  by simp


section \<open>Loading leaves the file alone\<close>

text \<open>
  C10. \<open>getWindowState\<close> changes nothing but the list of calls made: it asks whether
  the file exists, reads it when it does, and logs a failed read or parse. It never
  writes: the content of the file, missing, malformed or partial, is what it was.
\<close>

theorem getWindowState_read_only:
  "snd (getWindowState parse s) =
     s\<lparr>calls := calls s @ Exists_sync #
         (case config_file s of
            None \<Rightarrow> []
          | Some data \<Rightarrow>
              Read_file_sync #
              (if read_fails s then [Console_error ''Failed to load window state:'' FsError]
               else case parse data of
                      Inl e \<Rightarrow> [Console_error ''Failed to load window state:'' e]
                    | Inr v \<Rightarrow> []))\<rparr>
   \<and> config_file (snd (getWindowState parse s)) = config_file s"
  by (auto simp: load_defs host_defs split: option.splits sum.splits)

end
